theory Spec2Isabelle
  imports Main "HOL-Library.Word"
begin

section \<open>Strings of the program\<close>

text \<open>
  A JavaScript string is a sequence of UTF-16 code units. The program splits on the
  full-width comma U+FF0C and trims with \<^verbatim>\<open>String.prototype.trim\<close>, which both work on
  code units, so a string is modelled as a list of 16-bit words. ASCII literals of the
  source are written with \<open>js\<close>.
\<close>

type_synonym jsstring = "16 word list"

definition js :: "string \<Rightarrow> jsstring" where
  "js s = map (\<lambda>c. of_nat (of_char c)) s"

text \<open>
  \<^verbatim>\<open>String.prototype.trim\<close> removes, at both ends, the code units of the ECMAScript
  productions WhiteSpace (TAB, VT, FF, SP, NBSP, ZWNBSP and the category Zs) and
  LineTerminator (LF, CR, LS, PS).
\<close>

definition isWhiteSpace :: "16 word \<Rightarrow> bool" where
  "isWhiteSpace c \<longleftrightarrow>
     c \<in> set [0x0009, 0x000A, 0x000B, 0x000C, 0x000D, 0x0020, 0x00A0, 0x1680,
               0x2028, 0x2029, 0x202F, 0x205F, 0x3000, 0xFEFF]
     \<or> (0x2000 \<le> c \<and> c \<le> 0x200A)"

definition trim :: "jsstring \<Rightarrow> jsstring" where
  "trim s = rev (dropWhile isWhiteSpace (rev (dropWhile isWhiteSpace s)))"

text \<open>
  \<^verbatim>\<open>s.split(sep)\<close> for a separator that is one code unit (the string \<^verbatim>\<open>'\n'\<close>, the string
  \<^verbatim>\<open>'.'\<close>) or a regular expression matching one code unit out of a set (the comma or the full-width comma U+FF0C):
  the segments between the separators, an empty string giving one empty segment.
\<close>

fun splitOn :: "('a \<Rightarrow> bool) \<Rightarrow> 'a list \<Rightarrow> 'a list list" where
  "splitOn p [] = [[]]"
| "splitOn p (x # xs) =
     (if p x then [] # splitOn p xs
      else (case splitOn p xs of [] \<Rightarrow> [[x]] | seg # segs \<Rightarrow> (x # seg) # segs))"

text \<open>\<^verbatim>\<open>lines.join('\n')\<close>, the inverse view of a text resource: its lines, LF between them.\<close>

fun joinWith :: "'a \<Rightarrow> 'a list list \<Rightarrow> 'a list" where
  "joinWith c [] = []"
| "joinWith c [l] = l"
| "joinWith c (l # m # ls) = l @ c # joinWith c (m # ls)"

definition LF :: "16 word" where "LF = 0x000A"
definition DOT :: "16 word" where "DOT = 0x002E"
definition COMMA :: "16 word" where "COMMA = 0x002C"
definition FULLWIDTH_COMMA :: "16 word" where "FULLWIDTH_COMMA = 0xFF0C"
definition DOLLAR :: "16 word" where "DOLLAR = 0x0024"
definition AMPERSAND :: "16 word" where "AMPERSAND = 0x0026"
definition BACKTICK :: "16 word" where "BACKTICK = 0x0060"
definition APOSTROPHE :: "16 word" where "APOSTROPHE = 0x0027"

text \<open>
  \<^verbatim>\<open>str.replace(pattern, replacement)\<close> with a string pattern: the first occurrence of the
  pattern is replaced, and the replacement text is expanded by the ECMAScript operation
  GetSubstitution: \<^verbatim>\<open>$$\<close> stands for one dollar sign, \<^verbatim>\<open>$&\<close> for the matched text, \<^verbatim>\<open>$`\<close>
  for the text in front of the match and \<^verbatim>\<open>$'\<close> for the text behind it. A string pattern has
  no capture groups, so every other dollar sign is copied as it is.
\<close>

fun findFirst :: "'a list \<Rightarrow> 'a list \<Rightarrow> ('a list \<times> 'a list) option" where
  "findFirst pat [] = (if pat = [] then Some ([], []) else None)"
| "findFirst pat (x # xs) =
     (if take (length pat) (x # xs) = pat then Some ([], drop (length pat) (x # xs))
      else (case findFirst pat xs of
              None \<Rightarrow> None
            | Some (pre, post) \<Rightarrow> Some (x # pre, post)))"

fun getSubstitution :: "jsstring \<Rightarrow> jsstring \<Rightarrow> jsstring \<Rightarrow> jsstring \<Rightarrow> jsstring" where
  "getSubstitution matched pre post [] = []"
| "getSubstitution matched pre post [c] = [c]"
| "getSubstitution matched pre post (c # d # r) =
     (if c = DOLLAR \<and> d = DOLLAR then DOLLAR # getSubstitution matched pre post r
      else if c = DOLLAR \<and> d = AMPERSAND then matched @ getSubstitution matched pre post r
      else if c = DOLLAR \<and> d = BACKTICK then pre @ getSubstitution matched pre post r
      else if c = DOLLAR \<and> d = APOSTROPHE then post @ getSubstitution matched pre post r
      else c # getSubstitution matched pre post (d # r))"

definition replace :: "jsstring \<Rightarrow> jsstring \<Rightarrow> jsstring \<Rightarrow> jsstring" where
  "replace str pat replacement =
     (case findFirst pat str of
        None \<Rightarrow> str
      | Some (pre, post) \<Rightarrow> pre @ getSubstitution pat pre post replacement @ post)"

section \<open>Configuration\<close>

definition DEFAULT_PROMPT_TEMPLATE :: jsstring where
  "DEFAULT_PROMPT_TEMPLATE =
     js ''A flat illustration of {ingredient}, centered, clean white background, simple style, no text, no watermark, high quality, for mobile app UI''"

definition PLACEHOLDER :: jsstring where
  "PLACEHOLDER = js ''{ingredient}''"

section \<open>Prompt builder\<close>

text \<open>
  JavaScript truthiness of a value that is \<^verbatim>\<open>null\<close>/\<^verbatim>\<open>undefined\<close> or a string: only a
  non-empty string is truthy.

  The branch of \<^verbatim>\<open>main\<close> that builds the prompt tests \<^verbatim>\<open>if (stylePrompt)\<close>, so \<^verbatim>\<open>null\<close>
  and the empty string both take the template branch.
\<close>

definition truthy :: "jsstring option \<Rightarrow> bool" where
  "truthy v = (case v of None \<Rightarrow> False | Some s \<Rightarrow> s \<noteq> [])"

definition buildPrompt :: "jsstring \<Rightarrow> jsstring option \<Rightarrow> jsstring" where
  "buildPrompt ingredientEn stylePrompt =
     (case stylePrompt of
        Some style \<Rightarrow>
          if style \<noteq> [] then ingredientEn @ js '', '' @ style
          else replace DEFAULT_PROMPT_TEMPLATE PLACEHOLDER ingredientEn
      | None \<Rightarrow> replace DEFAULT_PROMPT_TEMPLATE PLACEHOLDER ingredientEn)"

section \<open>How a run ends\<close>

text \<open>
  How a run can end: \<^verbatim>\<open>process.exit(n)\<close> or running to completion (exit code 0); an
  exception that nothing catches, thrown inside \<^verbatim>\<open>main\<close>; or \<^verbatim>\<open>main\<close> waiting for a promise
  that never settles, so that the rest of the loop is never run.
\<close>

datatype status = Exited nat | Uncaught | Stalled

section \<open>Input loader\<close>

text \<open>
  \<^verbatim>\<open>readIngredients\<close>. The argument is what \<^verbatim>\<open>fs.readFileSync(INPUT_FILE, 'utf8')\<close> gives:
  the text, or \<open>None\<close> when the read throws; the handler ends the process with code 1.
\<close>

definition readIngredients :: "jsstring option \<Rightarrow> status + jsstring list" where
  "readIngredients file =
     (case file of
        None \<Rightarrow> Inl (Exited 1)
      | Some data \<Rightarrow>
          Inr (filter (\<lambda>line. length line > 0) (map trim (splitOn (\<lambda>c. c = LF) data))))"

text \<open>
  The first three statements of the loop body of \<^verbatim>\<open>main\<close>: the line is split at commas and
  full-width commas. \<^verbatim>\<open>split\<close> returns at least one segment (lemma \<open>splitOn_not_Nil\<close>), so
  \<^verbatim>\<open>parts[0]\<close> is always in range.
\<close>

definition isComma :: "16 word \<Rightarrow> bool" where
  "isComma c \<longleftrightarrow> c = COMMA \<or> c = FULLWIDTH_COMMA"

record item =
  ingredientEn :: jsstring
  ingredientCn :: jsstring

definition parseLine :: "jsstring \<Rightarrow> item" where
  "parseLine line =
     (let parts = splitOn isComma line
      in \<lparr>ingredientEn = trim (parts ! 0),
          ingredientCn = (if length parts > 1 then trim (parts ! 1) else [])\<rparr>)"

section \<open>Credential signer\<close>

text \<open>
  The check at the top of the module: \<^verbatim>\<open>!API_KEY || !API_KEY.includes('.')\<close>.
  \<^verbatim>\<open>process.env.ZHIPU_API_KEY\<close> is \<^verbatim>\<open>undefined\<close> (\<open>None\<close>) or a string.
\<close>

definition apiKeyRejected :: "jsstring option \<Rightarrow> bool" where
  "apiKeyRejected API_KEY \<longleftrightarrow>
     \<not> truthy API_KEY \<or> (case API_KEY of None \<Rightarrow> True | Some k \<Rightarrow> DOT \<notin> set k)"

text \<open>
  The structure that the specification asks of a credential, in its words: two parts,
  an identifier and a secret, with one dot between them.
\<close>

definition twoPartCredential :: "jsstring option \<Rightarrow> bool" where
  "twoPartCredential credential =
     (case credential of
        None \<Rightarrow> False
      | Some k \<Rightarrow>
          (case splitOn (\<lambda>c. c = DOT) k of
             [ident, secret] \<Rightarrow> ident \<noteq> [] \<and> secret \<noteq> []
           | _ \<Rightarrow> False))"

record payload =
  api_key :: jsstring
  exp :: int
  timestamp :: int

record header =
  alg :: jsstring
  sign_type :: jsstring

text \<open>
  \<^verbatim>\<open>jwt.sign\<close> belongs to the library jsonwebtoken, not to the repository. A token is
  modelled symbolically as the header and the payload together with the key that signed
  them; decoding gives the payload back. What the library adds on its own (the header
  field \<^verbatim>\<open>typ\<close>, the payload field \<^verbatim>\<open>iat\<close>) is not part of the model. The library refuses
  a secret that is \<^verbatim>\<open>undefined\<close> or empty (``secretOrPrivateKey must have a value'') by
  throwing.
\<close>

datatype token = Token header payload jsstring

datatype error = SecretOrPrivateKeyMissing

fun decode :: "token \<Rightarrow> payload" where
  "decode (Token h p k) = p"

fun signingKey :: "token \<Rightarrow> jsstring" where
  "signingKey (Token h p k) = k"

definition jwt_sign :: "payload \<Rightarrow> jsstring option \<Rightarrow> header \<Rightarrow> error + token" where
  "jwt_sign p secret h =
     (case secret of
        None \<Rightarrow> Inl SecretOrPrivateKeyMissing
      | Some k \<Rightarrow> if k = [] then Inl SecretOrPrivateKeyMissing else Inr (Token h p k))"

text \<open>
  \<^verbatim>\<open>generateToken\<close>. The source evaluates \<^verbatim>\<open>Date.now()\<close> twice, first for \<^verbatim>\<open>exp\<close> and then
  for \<^verbatim>\<open>timestamp\<close>; \<open>now1\<close> and \<open>now2\<close> are the two readings of the clock, in
  milliseconds. \<^verbatim>\<open>Math.floor(t / 1000)\<close> is \<open>t div 1000\<close> on integers. The destructuring
  \<^verbatim>\<open>[id, secret] = apiKey.split('.')\<close> takes the first two segments; \<^verbatim>\<open>secret\<close> is
  \<^verbatim>\<open>undefined\<close> when there is no second one.
\<close>

definition generateToken :: "jsstring \<Rightarrow> int \<Rightarrow> int \<Rightarrow> int \<Rightarrow> error + token" where
  "generateToken apiKey now1 now2 expSeconds =
     (let parts = splitOn (\<lambda>c. c = DOT) apiKey;
          id = parts ! 0;
          secret = (if length parts > 1 then Some (parts ! 1) else None);
          payload = \<lparr>api_key = id,
                     exp = now1 div 1000 + expSeconds,
                     timestamp = now2 div 1000\<rparr>;
          header = \<lparr>alg = js ''HS256'', sign_type = js ''SIGN''\<rparr>
      in jwt_sign payload secret header)"

section \<open>The world around the program\<close>

type_synonym bytes = "8 word list"

text \<open>
  The reference image: no file at the path, a file that cannot be read, or a file with
  the base64 text of its bytes (empty for an empty file).
\<close>

datatype reference = NoReference | UnreadableReference | Reference jsstring

text \<open>
  What the vision endpoint does with the one request. \<^verbatim>\<open>axios.post\<close> rejects on a network
  error and on a status outside 2xx; a reply without \<^verbatim>\<open>choices[0].message.content\<close>, or
  with one that is not a string, makes the property access or the call of
  \<^verbatim>\<open>content.replace\<close> throw a TypeError.
\<close>

datatype vision_reply =
  VisionNetworkError | VisionNonSuccess | VisionMalformed | VisionContent jsstring

text \<open>The generation endpoint, in the same way; the reply read is \<^verbatim>\<open>data.data[0].url\<close>.\<close>

datatype generation_reply =
  GenerationNetworkError | GenerationNonSuccess | GenerationMalformed | GenerationUrl jsstring

text \<open>
  The download: the GET request is rejected; or the write stream emits \<^verbatim>\<open>error\<close> after
  some bytes; or the response stream breaks off after some bytes (\<^verbatim>\<open>pipe\<close> does not forward
  an error of its source and does not end the destination, so the write stream emits
  neither \<^verbatim>\<open>finish\<close> nor \<^verbatim>\<open>error\<close>); or all bytes are written and the write stream emits
  \<^verbatim>\<open>finish\<close>.
\<close>

datatype download_reply =
  DownloadRequestFails | DownloadWriterError bytes | DownloadSourceBreaks bytes
  | DownloadFinished bytes

record env =
  API_KEY :: "jsstring option"
  dateNow1 :: int
  dateNow2 :: int
  outputDirExists :: bool
  inputFile :: "jsstring option"
  referenceImage :: reference
  visionReply :: vision_reply
  generationReply :: "nat \<Rightarrow> generation_reply"
  downloadReply :: "nat \<Rightarrow> download_reply"
  outputFiles :: "jsstring \<rightharpoonup> bytes"

text \<open>
  \<open>generationReply env i\<close> and \<open>downloadReply env i\<close> are what the two endpoints do for the
  item with index \<open>i\<close>; \<open>outputFiles env\<close> are the files on disk before the run, by path.
\<close>

datatype message =
  BadApiKey | CannotReadInput | CannotReadReference | Found nat
  | Analyzing | AnalysisDone jsstring | AnalysisFailed | UsingDefaultTemplate
  | Generating nat nat jsstring | DownloadingTo jsstring | Done | GenerationFailed

text \<open>
  What a run does, in order: the lines it prints, and the calls of the components. The
  calls of \<open>StyleExtractor\<close>, \<open>GenerationClient\<close> and \<open>Downloader\<close> are the network requests.
\<close>

datatype event =
  Console message
  | MkdirOutput
  | InputLoader
  | CredentialSigner
  | StyleExtractor token jsstring
  | PromptBuilder nat jsstring
  | GenerationClient nat token jsstring
  | Downloader nat jsstring jsstring

fun isNetworkCall :: "event \<Rightarrow> bool" where
  "isNetworkCall (StyleExtractor t b) = True"
| "isNetworkCall (GenerationClient i t p) = True"
| "isNetworkCall (Downloader i u f) = True"
| "isNetworkCall e = False"

record world =
  trace :: "event list"
  files :: "jsstring \<rightharpoonup> bytes"

definition emit :: "event \<Rightarrow> world \<Rightarrow> world" where
  "emit e w = w\<lparr>trace := trace w @ [e]\<rparr>"

definition OUTPUT_DIR :: jsstring where
  "OUTPUT_DIR = js ''output''"

text \<open>
  \<^verbatim>\<open>path.join(dir, file)\<close> for a file name without path separators: the two joined by a
  slash. (A name with separators or dot segments would be normalised further.)
\<close>

definition pathJoin :: "jsstring \<Rightarrow> jsstring \<Rightarrow> jsstring" where
  "pathJoin dir file = dir @ js ''/'' @ file"

section \<open>Style extractor\<close>

definition getReferenceImageBase64 :: "reference \<Rightarrow> world \<Rightarrow> jsstring option \<times> world" where
  "getReferenceImageBase64 ref w =
     (case ref of
        NoReference \<Rightarrow> (None, w)
      | UnreadableReference \<Rightarrow> (None, emit (Console CannotReadReference) w)
      | Reference base64 \<Rightarrow> (Some base64, w))"

text \<open>
  \<^verbatim>\<open>content.replace(/^Style description:/i, '')\<close>: the label is removed when the text
  starts with it, in any mix of upper and lower case. Without the \<^verbatim>\<open>u\<close> flag only the
  ASCII letters have case variants that match an ASCII letter.
\<close>

definition toUpperAscii :: "16 word \<Rightarrow> 16 word" where
  "toUpperAscii c = (if 0x61 \<le> c \<and> c \<le> 0x7A then c - 0x20 else c)"

definition stripLabel :: "jsstring \<Rightarrow> jsstring" where
  "stripLabel content =
     (let label = js ''STYLE DESCRIPTION:''
      in if map toUpperAscii (take (length label) content) = label
         then drop (length label) content else content)"

definition analyzeImageStyle ::
  "vision_reply \<Rightarrow> jsstring \<Rightarrow> token \<Rightarrow> world \<Rightarrow> jsstring option \<times> world" where
  "analyzeImageStyle reply base64Image tok w =
     (let w1 = emit (Console Analyzing) w;
          w2 = emit (StyleExtractor tok base64Image) w1
      in case reply of
           VisionContent content \<Rightarrow>
             (let styleDescription = trim (stripLabel content)
              in (Some styleDescription, emit (Console (AnalysisDone styleDescription)) w2))
         | _ \<Rightarrow> (None, emit (Console AnalysisFailed) w2))"

text \<open>
  The lines of \<^verbatim>\<open>main\<close> between the token and the loop: the reference image is read, the
  style is asked for only when the base64 text is truthy, and a missing style is logged.
\<close>

definition extractStyle :: "env \<Rightarrow> token \<Rightarrow> world \<Rightarrow> jsstring option \<times> world" where
  "extractStyle e tok w =
     (let (base64Image, w1) = getReferenceImageBase64 (referenceImage e) w;
          (stylePrompt, w2) =
             (case base64Image of
                None \<Rightarrow> (None, w1)
              | Some b \<Rightarrow> if b \<noteq> [] then analyzeImageStyle (visionReply e) b tok w1
                          else (None, w1))
      in (stylePrompt,
          if \<not> truthy stylePrompt then emit (Console UsingDefaultTemplate) w2 else w2))"


section \<open>Downloader\<close>

datatype settled = Resolved | Rejected | Pending

text \<open>
  \<^verbatim>\<open>downloadImage\<close>. \<^verbatim>\<open>fs.createWriteStream(filepath)\<close> comes first and opens the file with
  flag \<^verbatim>\<open>w\<close>, which creates it or empties it; then the request is made and the body piped
  into the file. The promise resolves on \<^verbatim>\<open>finish\<close> and rejects on \<^verbatim>\<open>error\<close> of the write
  stream.
\<close>

definition downloadImage :: "download_reply \<Rightarrow> jsstring \<Rightarrow> jsstring \<Rightarrow> world \<Rightarrow> settled \<times> world" where
  "downloadImage reply url filepath w =
     (let w1 = w\<lparr>files := (files w)(filepath \<mapsto> [])\<rparr>
      in case reply of
           DownloadRequestFails \<Rightarrow> (Rejected, w1)
         | DownloadWriterError bs \<Rightarrow> (Rejected, w1\<lparr>files := (files w1)(filepath \<mapsto> bs)\<rparr>)
         | DownloadSourceBreaks bs \<Rightarrow> (Pending, w1\<lparr>files := (files w1)(filepath \<mapsto> bs)\<rparr>)
         | DownloadFinished bs \<Rightarrow> (Resolved, w1\<lparr>files := (files w1)(filepath \<mapsto> bs)\<rparr>))"

text \<open>What the file holds once the download is over, in each of the four cases.\<close>

definition written :: "download_reply \<Rightarrow> bytes" where
  "written reply =
     (case reply of
        DownloadRequestFails \<Rightarrow> []
      | DownloadWriterError bs \<Rightarrow> bs
      | DownloadSourceBreaks bs \<Rightarrow> bs
      | DownloadFinished bs \<Rightarrow> bs)"

section \<open>The main function\<close>

definition displayName :: "item \<Rightarrow> jsstring" where
  "displayName it =
     (if ingredientCn it \<noteq> [] then ingredientEn it @ js '' ('' @ ingredientCn it @ js '')''
      else ingredientEn it)"

definition itemFilename :: "jsstring \<Rightarrow> jsstring" where
  "itemFilename line = pathJoin OUTPUT_DIR (ingredientEn (parseLine line) @ js ''.png'')"

text \<open>
  One pass through the body of the loop, for the entry \<open>(index, line)\<close>. The result says
  whether the loop goes on: every exception of the \<^verbatim>\<open>try\<close> block is caught and logged, and
  only a download whose promise stays pending keeps the loop from its next entry.
\<close>

definition processItem ::
  "env \<Rightarrow> token \<Rightarrow> jsstring option \<Rightarrow> nat \<Rightarrow> nat \<times> jsstring \<Rightarrow> world \<Rightarrow> bool \<times> world" where
  "processItem e tok stylePrompt len entry w =
     (let index = fst entry; line = snd entry;
          it = parseLine line;
          w1 = emit (Console (Generating (index + 1) len (displayName it))) w;
          prompt = buildPrompt (ingredientEn it) stylePrompt;
          w2 = emit (PromptBuilder index prompt) w1;
          w3 = emit (GenerationClient index tok prompt) w2
      in case generationReply e index of
           GenerationUrl imageUrl \<Rightarrow>
             (let filename = itemFilename line;
                  w4 = emit (Console (DownloadingTo filename)) w3;
                  w5 = emit (Downloader index imageUrl filename) w4
              in case downloadImage (downloadReply e index) imageUrl filename w5 of
                   (Resolved, w6) \<Rightarrow> (True, emit (Console Done) w6)
                 | (Rejected, w6) \<Rightarrow> (True, emit (Console GenerationFailed) w6)
                 | (Pending, w6) \<Rightarrow> (False, w6))
         | _ \<Rightarrow> (True, emit (Console GenerationFailed) w3))"

text \<open>
  What one pass adds to the trace, and whether the loop goes on after the entry with
  index \<open>i\<close>: it does unless the entry's download stays pending.
\<close>

definition itemEvents :: "env \<Rightarrow> token \<Rightarrow> jsstring option \<Rightarrow> nat \<Rightarrow> nat \<times> jsstring \<Rightarrow> event list" where
  "itemEvents e tok stylePrompt len entry =
     trace (snd (processItem e tok stylePrompt len entry \<lparr>trace = [], files = Map.empty\<rparr>))"

definition settles :: "env \<Rightarrow> nat \<Rightarrow> bool" where
  "settles e i =
     (case generationReply e i of
        GenerationUrl u \<Rightarrow> (case downloadReply e i of DownloadSourceBreaks bs \<Rightarrow> False | _ \<Rightarrow> True)
      | _ \<Rightarrow> True)"

fun processItems ::
  "env \<Rightarrow> token \<Rightarrow> jsstring option \<Rightarrow> nat \<Rightarrow> (nat \<times> jsstring) list \<Rightarrow> world \<Rightarrow> bool \<times> world" where
  "processItems e tok stylePrompt len [] w = (True, w)"
| "processItems e tok stylePrompt len (entry # entries) w =
     (case processItem e tok stylePrompt len entry w of
        (True, w') \<Rightarrow> processItems e tok stylePrompt len entries w'
      | (False, w') \<Rightarrow> (False, w'))"

text \<open>
  \<^verbatim>\<open>main\<close>, called with the key that passed the check. \<^verbatim>\<open>generateToken(API_KEY)\<close> uses the
  default of 3600 seconds. An exception of \<^verbatim>\<open>jwt.sign\<close> is not caught anywhere.
\<close>

definition main :: "env \<Rightarrow> jsstring \<Rightarrow> status \<times> world" where
  "main e apiKey =
     (let w0 = \<lparr>trace = [], files = outputFiles e\<rparr>;
          w1 = (if \<not> outputDirExists e then emit MkdirOutput w0 else w0);
          w2 = emit InputLoader w1
      in case readIngredients (inputFile e) of
           Inl st \<Rightarrow> (st, emit (Console CannotReadInput) w2)
         | Inr ingredients \<Rightarrow>
             (let w3 = emit (Console (Found (length ingredients))) w2;
                  w4 = emit CredentialSigner w3
              in case generateToken apiKey (dateNow1 e) (dateNow2 e) 3600 of
                   Inl err \<Rightarrow> (Uncaught, w4)
                 | Inr tok \<Rightarrow>
                     (let (stylePrompt, w5) = extractStyle e tok w4
                      in case processItems e tok stylePrompt (length ingredients)
                                (enumerate 0 ingredients) w5 of
                           (True, w6) \<Rightarrow> (Exited 0, w6)
                         | (False, w6) \<Rightarrow> (Stalled, w6))))"

text \<open>The module from top to bottom: the check of the key, then \<^verbatim>\<open>main()\<close>.\<close>

definition program :: "env \<Rightarrow> status \<times> world" where
  "program e =
     (case API_KEY e of
        None \<Rightarrow> (Exited 1, \<lparr>trace = [Console BadApiKey], files = outputFiles e\<rparr>)
      | Some apiKey \<Rightarrow>
          if apiKeyRejected (Some apiKey)
          then (Exited 1, \<lparr>trace = [Console BadApiKey], files = outputFiles e\<rparr>)
          else main e apiKey)"

section \<open>The order of the components\<close>

text \<open>
  The calls of the components in a trace, without the printed lines and the creation of
  the directory.
\<close>

datatype component =
  CredentialSignerC | InputLoaderC | StyleExtractorC
  | PromptBuilderC nat | GenerationClientC nat | DownloaderC nat

fun componentOf :: "event \<Rightarrow> component option" where
  "componentOf CredentialSigner = Some CredentialSignerC"
| "componentOf InputLoader = Some InputLoaderC"
| "componentOf (StyleExtractor tok b) = Some StyleExtractorC"
| "componentOf (PromptBuilder i p) = Some (PromptBuilderC i)"
| "componentOf (GenerationClient i tok p) = Some (GenerationClientC i)"
| "componentOf (Downloader i u f) = Some (DownloaderC i)"
| "componentOf (Console m) = None"
| "componentOf MkdirOutput = None"

fun components :: "event list \<Rightarrow> component list" where
  "components [] = []"
| "components (ev # evs) =
     (case componentOf ev of None \<Rightarrow> components evs | Some c \<Rightarrow> c # components evs)"





section \<open>An example environment\<close>

text \<open>
  A valid credential, a clock at 5 seconds, three items, no reference image. The
  generation call fails for the second item; every download succeeds.
\<close>

definition exampleEnv :: env where
  "exampleEnv =
     \<lparr>API_KEY = Some (js ''id.secret''), dateNow1 = 5000, dateNow2 = 5000,
      outputDirExists = True,
      inputFile = Some (js ''Apple'' @ [LF] @ js ''Banana'' @ [LF] @ js ''Cherry''),
      referenceImage = NoReference, visionReply = VisionNetworkError,
      generationReply = (\<lambda>i. if i = 1 then GenerationNonSuccess else GenerationUrl (js ''https://cdn/img'')),
      downloadReply = (\<lambda>i. DownloadFinished [0x89, 0x50, of_nat i]),
      outputFiles = Map.empty\<rparr>"

section \<open>Facts about splitting and replacing\<close>

lemma splitOn_not_Nil: "splitOn p xs \<noteq> []"
  by (induction xs) (auto split: list.splits)

lemma splitOn_no_separator: "\<forall>x\<in>set xs. \<not> p x \<Longrightarrow> splitOn p xs = [xs]"
  by (induction xs) auto

lemma splitOn_first_separator:
  "\<forall>x\<in>set a. \<not> p x \<Longrightarrow> p s \<Longrightarrow> splitOn p (a @ s # rest) = a # splitOn p rest"
  by (induction a) auto

lemma splitOn_eq_no_separator: "c \<notin> set xs \<Longrightarrow> splitOn (\<lambda>x. x = c) xs = [xs]"
  by (rule splitOn_no_separator) auto

lemma splitOn_eq_first_separator:
  "c \<notin> set a \<Longrightarrow> splitOn (\<lambda>x. x = c) (a @ c # rest) = a # splitOn (\<lambda>x. x = c) rest"
  by (rule splitOn_first_separator) auto

lemma splitOn_joinWith:
  "ls \<noteq> [] \<Longrightarrow> \<forall>l\<in>set ls. c \<notin> set l \<Longrightarrow> splitOn (\<lambda>x. x = c) (joinWith c ls) = ls"
  by (induction c ls rule: joinWith.induct)
    (simp_all add: splitOn_eq_no_separator splitOn_eq_first_separator)



lemma getSubstitution_no_dollar:
  "DOLLAR \<notin> set r \<Longrightarrow> getSubstitution m b a r = r"
  by (induction m b a r rule: getSubstitution.induct) auto

lemma findFirst_template:
  "findFirst PLACEHOLDER DEFAULT_PROMPT_TEMPLATE =
     Some (js ''A flat illustration of '',
           js '', centered, clean white background, simple style, no text, no watermark, high quality, for mobile app UI'')"
  by code_simp

lemma replace_template:
  "replace DEFAULT_PROMPT_TEMPLATE PLACEHOLDER name =
     js ''A flat illustration of '' @
     getSubstitution PLACEHOLDER (js ''A flat illustration of '')
       (js '', centered, clean white background, simple style, no text, no watermark, high quality, for mobile app UI'') name @
     js '', centered, clean white background, simple style, no text, no watermark, high quality, for mobile app UI''"
  by (simp add: replace_def findFirst_template)

section \<open>The prompt builder (C1)\<close>

text \<open>
  With a style descriptor that the code takes as present (a non-empty string), the
  prompt is the name, a comma and a space, and the descriptor.
\<close>

lemma buildPrompt_style:
  "style \<noteq> [] \<Longrightarrow> buildPrompt name (Some style) = name @ js '', '' @ style"
  by (simp add: buildPrompt_def)

text \<open>
  Without one, the prompt is the template with the name in the place of the placeholder,
  for every name without a dollar sign.
\<close>

lemma buildPrompt_template:
  "\<not> truthy stylePrompt \<Longrightarrow> DOLLAR \<notin> set name \<Longrightarrow>
   buildPrompt name stylePrompt =
     js ''A flat illustration of '' @ name @
     js '', centered, clean white background, simple style, no text, no watermark, high quality, for mobile app UI''"
  by (auto simp: buildPrompt_def truthy_def replace_template getSubstitution_no_dollar
      split: option.splits)


text \<open>
  Claim C1: without a style descriptor the prompt is the default template with
  \<^verbatim>\<open>{ingredient}\<close> replaced by the primary name. The source passes the name to
  \<^verbatim>\<open>String.prototype.replace\<close> as the replacement text, where \<^verbatim>\<open>$$\<close>, \<^verbatim>\<open>$&\<close>, \<^verbatim>\<open>$`\<close> and \<^verbatim>\<open>$'\<close>
  are patterns. For the name \<^verbatim>\<open>$$\<close> the prompt built has a single dollar sign where the
  claim puts the name: it is not the template with the placeholder replaced by the name.
\<close>

theorem buildPrompt_dollar_name:
  "buildPrompt (js ''$$'') None =
     js ''A flat illustration of '' @ js ''$'' @
     js '', centered, clean white background, simple style, no text, no watermark, high quality, for mobile app UI''
   \<and> buildPrompt (js ''$$'') None \<noteq>
     js ''A flat illustration of '' @ js ''$$'' @
     js '', centered, clean white background, simple style, no text, no watermark, high quality, for mobile app UI''"
proof -
  have "getSubstitution m b a (js ''$$'') = js ''$''" for m b a
    by (simp add: js_def DOLLAR_def)
  then show ?thesis
    by (simp add: buildPrompt_def replace_template) (simp add: js_def)
qed

section \<open>The token (C2)\<close>

text \<open>
  When the two readings of the clock fall into the same second, the expiry of the payload
  is its timestamp plus the time to live.
\<close>

lemma generateToken_same_second:
  assumes "DOT \<notin> set ident" "DOT \<notin> set secret" "secret \<noteq> []"
    and "now1 div 1000 = now2 div 1000"
  shows "\<exists>tok. generateToken (ident @ DOT # secret) now1 now2 ttl = Inr tok
           \<and> api_key (decode tok) = ident \<and> signingKey tok = secret
           \<and> exp (decode tok) = timestamp (decode tok) + ttl"
proof -
  from assms have "splitOn (\<lambda>c. c = DOT) (ident @ DOT # secret) = [ident, secret]"
    by (simp add: splitOn_eq_no_separator splitOn_eq_first_separator)
  with assms show ?thesis
    by (simp add: generateToken_def jwt_sign_def)
qed

text \<open>
  Claim C2: for every valid credential and every time to live, the expiry of the decoded
  payload is its issued-at timestamp plus the time to live. The source reads the clock
  once for \<^verbatim>\<open>exp\<close> and once more for \<^verbatim>\<open>timestamp\<close>. For the credential \<^verbatim>\<open>id.secret\<close>, the
  default of 3600 seconds and the readings 1999 ms and 2000 ms, the payload has the
  expiry 3601 and the timestamp 2.
\<close>

theorem generateToken_clock_tick:
  "generateToken (js ''id.secret'') 1999 2000 3600 =
     Inr (Token \<lparr>alg = js ''HS256'', sign_type = js ''SIGN''\<rparr>
                \<lparr>api_key = js ''id'', exp = 3601, timestamp = 2\<rparr> (js ''secret''))
   \<and> (case generateToken (js ''id.secret'') 1999 2000 3600 of
        Inl err \<Rightarrow> False
      | Inr tok \<Rightarrow> exp (decode tok) \<noteq> timestamp (decode tok) + 3600)"
  by code_simp

section \<open>The input loader (C3)\<close>

text \<open>
  Claim C3: a text resource is its lines with a line feed between them. The loader
  returns the lines that are not empty after trimming, trimmed, in their order; there
  are as many of them as the resource has such lines, and the other lines are dropped.
\<close>

theorem readIngredients_lines:
  assumes "\<forall>l\<in>set ls. LF \<notin> set l"
  shows "readIngredients (Some (joinWith LF ls)) =
           Inr (map trim (filter (\<lambda>l. trim l \<noteq> []) ls))
    \<and> (\<exists>items. readIngredients (Some (joinWith LF ls)) = Inr items
          \<and> length items = length (filter (\<lambda>l. trim l \<noteq> []) ls)
          \<and> length items + length (filter (\<lambda>l. trim l = []) ls) = length ls)"
proof (cases "ls = []")
  case True
  then show ?thesis by (simp add: readIngredients_def trim_def)
next
  case False
  with assms have "splitOn (\<lambda>c. c = LF) (joinWith LF ls) = ls"
    by (simp add: splitOn_joinWith)
  then have 1: "readIngredients (Some (joinWith LF ls)) =
      Inr (map trim (filter (\<lambda>l. trim l \<noteq> []) ls))"
    by (simp add: readIngredients_def filter_map comp_def)
  have "length (filter (\<lambda>l. trim l \<noteq> []) ls) + length (filter (\<lambda>l. trim l = []) ls) = length ls"
    using sum_length_filter_compl [of "\<lambda>l. trim l \<noteq> []" ls] by simp
  with 1 show ?thesis by simp
qed

theorem readIngredients_lines_witness:
  "list_all (\<lambda>l. LF \<notin> set l) [js ''Apple'', js ''  '', js '' Banana '', []]
   \<and> readIngredients (Some (js ''Apple'' @ [LF] @ js ''  '' @ [LF] @ js '' Banana '' @ [LF])) =
       Inr [js ''Apple'', js ''Banana'']"
  using readIngredients_lines [of "[js ''Apple'', js ''  '', js '' Banana '', []]"]
  by (simp add: js_def LF_def trim_def isWhiteSpace_def)

section \<open>Parsing a line (C4)\<close>

text \<open>
  Claim C4: a line is split at every comma and full-width comma; the first segment,
  trimmed, is the primary name, and the second segment, trimmed, is the secondary label,
  which is empty when the line has no comma. Here \<open>a\<close> and \<open>b\<close> are segments, \<open>s\<close> and
  \<open>s'\<close> separators, and \<open>rest\<close> is whatever follows a second separator.
\<close>

theorem parseLine_segments:
  assumes "COMMA \<notin> set a" "FULLWIDTH_COMMA \<notin> set a"
    and "COMMA \<notin> set b" "FULLWIDTH_COMMA \<notin> set b"
    and "s = COMMA \<or> s = FULLWIDTH_COMMA" "s' = COMMA \<or> s' = FULLWIDTH_COMMA"
  shows "parseLine a = \<lparr>ingredientEn = trim a, ingredientCn = []\<rparr>
    \<and> parseLine (a @ s # b) = \<lparr>ingredientEn = trim a, ingredientCn = trim b\<rparr>
    \<and> parseLine (a @ s # b @ s' # rest) = \<lparr>ingredientEn = trim a, ingredientCn = trim b\<rparr>"
proof -
  from assms have a: "\<forall>c\<in>set a. \<not> isComma c" and b: "\<forall>c\<in>set b. \<not> isComma c"
    and s: "isComma s" "isComma s'"
    by (auto simp: isComma_def)
  have 1: "splitOn isComma a = [a]"
    using a by (rule splitOn_no_separator)
  have 2: "splitOn isComma (a @ s # b) = [a, b]"
    using a b s by (simp add: splitOn_first_separator splitOn_no_separator)
  have 3: "splitOn isComma (a @ s # b @ s' # rest) = a # b # splitOn isComma rest"
    using a b s by (simp add: splitOn_first_separator)
  from 1 2 3 show ?thesis
    by (simp add: parseLine_def)
qed

theorem parseLine_segments_witness:
  "parseLine (js ''Banana'') = \<lparr>ingredientEn = js ''Banana'', ingredientCn = []\<rparr>
   \<and> parseLine (js ''Apple'' @ [COMMA, 0x82F9, 0x679C]) =
       \<lparr>ingredientEn = js ''Apple'', ingredientCn = [0x82F9, 0x679C]\<rparr>
   \<and> parseLine (js '' Apple '' @ [FULLWIDTH_COMMA, 0x0020, 0x82F9, 0x679C, COMMA] @ js ''x'') =
       \<lparr>ingredientEn = js ''Apple'', ingredientCn = [0x82F9, 0x679C]\<rparr>"
  using parseLine_segments [of "js ''Banana''" "[]" COMMA COMMA "[]"]
    parseLine_segments [of "js ''Apple''" "[0x82F9, 0x679C]" COMMA COMMA "[]"]
    parseLine_segments [of "js '' Apple ''" "[0x0020, 0x82F9, 0x679C]" FULLWIDTH_COMMA COMMA "js ''x''"]
  by (simp add: js_def COMMA_def FULLWIDTH_COMMA_def trim_def isWhiteSpace_def)

section \<open>Primary names (C8)\<close>

text \<open>The loader returns no empty line.\<close>

lemma readIngredients_nonempty_lines:
  "readIngredients file = Inr ls \<Longrightarrow> l \<in> set ls \<Longrightarrow> l \<noteq> []"
  by (auto simp: readIngredients_def split: option.splits)

text \<open>
  Claim C8: every item of the loader has a primary name that is not empty after
  trimming. The loader drops the lines that are empty after trimming, but a line that
  starts with a comma is kept and its first segment is empty: for the resource with the
  two lines \<^verbatim>\<open>Pear\<close> and \<^verbatim>\<open>,\<close> followed by U+82F9 U+679C, the second item has the empty
  primary name.
\<close>

theorem empty_primary_name:
  "readIngredients (Some (js ''Pear'' @ [LF, COMMA, 0x82F9, 0x679C])) =
     Inr [js ''Pear'', [COMMA, 0x82F9, 0x679C]]
   \<and> parseLine [COMMA, 0x82F9, 0x679C] = \<lparr>ingredientEn = [], ingredientCn = [0x82F9, 0x679C]\<rparr>
   \<and> trim (ingredientEn (parseLine [COMMA, 0x82F9, 0x679C])) = []"
  by code_simp

section \<open>Credentials with more dots (C10)\<close>



section \<open>Facts about a pass of the loop\<close>

lemma trace_emit [simp]: "trace (emit ev w) = trace w @ [ev]"
  by (simp add: emit_def)

lemma files_emit [simp]: "files (emit ev w) = files w"
  by (simp add: emit_def)

lemma downloadImage_trace [simp]: "trace (snd (downloadImage reply url f w)) = trace w"
  by (simp add: downloadImage_def Let_def split: download_reply.splits)

lemma downloadImage_files [simp]:
  "files (snd (downloadImage reply url f w)) = (files w)(f \<mapsto> written reply)"
  by (simp add: downloadImage_def written_def Let_def split: download_reply.splits)

lemma downloadImage_fst [simp]:
  "fst (downloadImage reply url f w) =
     (case reply of DownloadRequestFails \<Rightarrow> Rejected | DownloadWriterError bs \<Rightarrow> Rejected
      | DownloadSourceBreaks bs \<Rightarrow> Pending | DownloadFinished bs \<Rightarrow> Resolved)"
  by (simp add: downloadImage_def Let_def split: download_reply.splits)


lemma processItem_fst:
  "fst (processItem e tok style len (i, line) w) =
     (case generationReply e i of
        GenerationUrl u \<Rightarrow> (case downloadReply e i of DownloadSourceBreaks bs \<Rightarrow> False | _ \<Rightarrow> True)
      | _ \<Rightarrow> True)"
  by (simp add: processItem_def Let_def split_beta
      split: generation_reply.splits settled.splits download_reply.splits)

lemma processItem_trace:
  "trace (snd (processItem e tok style len entry w)) = trace w @ itemEvents e tok style len entry"
  by (simp add: itemEvents_def processItem_def Let_def split_beta
      split: generation_reply.splits settled.splits download_reply.splits)

lemma processItem_settles: "fst (processItem e tok style len entry w) = settles e (fst entry)"
  by (cases entry) (simp add: processItem_fst settles_def)

lemma itemEvents_eq:
  "itemEvents e tok style len (i, line) =
     [Console (Generating (i + 1) len (displayName (parseLine line))),
      PromptBuilder i (buildPrompt (ingredientEn (parseLine line)) style),
      GenerationClient i tok (buildPrompt (ingredientEn (parseLine line)) style)] @
     (case generationReply e i of
        GenerationUrl u \<Rightarrow>
          [Console (DownloadingTo (itemFilename line)), Downloader i u (itemFilename line)] @
          (case downloadReply e i of
             DownloadFinished bs \<Rightarrow> [Console Done]
           | DownloadSourceBreaks bs \<Rightarrow> []
           | _ \<Rightarrow> [Console GenerationFailed])
      | _ \<Rightarrow> [Console GenerationFailed])"
  by (simp add: itemEvents_def processItem_def Let_def split_beta
      split: generation_reply.splits settled.splits download_reply.splits)

lemma processItems_all_settle:
  "list_all (\<lambda>entry. settles e (fst entry)) entries \<Longrightarrow>
   fst (processItems e tok style len entries w)
   \<and> trace (snd (processItems e tok style len entries w)) =
       trace w @ concat (map (itemEvents e tok style len) entries)"
proof (induction entries arbitrary: w)
  case Nil
  then show ?case by simp
next
  case (Cons entry entries)
  obtain b w' where step: "processItem e tok style len entry w = (b, w')"
    by (cases "processItem e tok style len entry w")
  with Cons.prems processItem_settles [of e tok style len entry w] have b: "b" by simp
  from step processItem_trace [of e tok style len entry w]
  have tr: "trace w' = trace w @ itemEvents e tok style len entry" by simp
  from Cons.prems have "list_all (\<lambda>entry. settles e (fst entry)) entries" by simp
  from Cons.IH [OF this, of w'] step b tr show ?case by simp
qed

lemma processItems_fst:
  "fst (processItems e tok style len entries w) = list_all (\<lambda>entry. settles e (fst entry)) entries"
proof (induction entries arbitrary: w)
  case Nil
  then show ?case by simp
next
  case (Cons entry entries)
  obtain b w' where step: "processItem e tok style len entry w = (b, w')"
    by (cases "processItem e tok style len entry w")
  with processItem_settles [of e tok style len entry w] have b: "b = settles e (fst entry)" by simp
  show ?case using step b Cons.IH [of w'] by (cases b) simp_all
qed


lemma processItems_trace_enumerate:
  "\<exists>n \<le> length ls.
     trace (snd (processItems e tok style len (enumerate j ls) w)) =
       trace w @ concat (map (itemEvents e tok style len) (enumerate j (take n ls)))"
proof (induction ls arbitrary: j w)
  case Nil
  then show ?case by simp
next
  case (Cons l ls)
  obtain b w' where step: "processItem e tok style len (j, l) w = (b, w')"
    by (cases "processItem e tok style len (j, l) w")
  from step processItem_trace [of e tok style len "(j, l)" w]
  have tr: "trace w' = trace w @ itemEvents e tok style len (j, l)" by simp
  show ?case
  proof (cases b)
    case True
    from Cons.IH [of "Suc j" w'] obtain n where n: "n \<le> length ls"
      "trace (snd (processItems e tok style len (enumerate (Suc j) ls) w')) =
         trace w' @ concat (map (itemEvents e tok style len) (enumerate (Suc j) (take n ls)))"
      by blast
    with step True tr have "Suc n \<le> length (l # ls) \<and>
      trace (snd (processItems e tok style len (enumerate j (l # ls)) w)) =
        trace w @ concat (map (itemEvents e tok style len) (enumerate j (take (Suc n) (l # ls))))"
      by simp
    then show ?thesis by blast
  next
    case False
    with step tr have "Suc 0 \<le> length (l # ls) \<and>
      trace (snd (processItems e tok style len (enumerate j (l # ls)) w)) =
        trace w @ concat (map (itemEvents e tok style len) (enumerate j (take (Suc 0) (l # ls))))"
      by simp
    then show ?thesis by blast
  qed
qed

lemma list_all_enumerate:
  "list_all (\<lambda>entry. P (fst entry)) (enumerate j ls) \<longleftrightarrow> (\<forall>i<length ls. P (j + i))"
proof (induction ls arbitrary: j)
  case Nil
  then show ?case by simp
next
  case (Cons l ls)
  have "(\<forall>i<Suc (length ls). P (j + i)) \<longleftrightarrow> P j \<and> (\<forall>i<length ls. P (Suc j + i))"
    by (auto simp: less_Suc_eq_0_disj)
  with Cons.IH [of "Suc j"] show ?case by simp
qed

lemma entry_in_enumerate: "i < length ls \<Longrightarrow> (j + i, ls ! i) \<in> set (enumerate j ls)"
  by (simp add: in_set_enumerate_eq)

lemma item_events_in_loop:
  "i < length ls \<Longrightarrow> ev \<in> set (itemEvents e tok style len (j + i, ls ! i)) \<Longrightarrow>
   ev \<in> set (concat (map (itemEvents e tok style len) (enumerate j ls)))"
  using entry_in_enumerate [of i ls j] by auto




section \<open>Facts about the order of the components\<close>







section \<open>Facts about a run\<close>

lemma extractStyle_files [simp]: "files (snd (extractStyle e tok w)) = files w"
  by (simp add: extractStyle_def getReferenceImageBase64_def analyzeImageStyle_def Let_def
      split: reference.splits vision_reply.splits)

lemma extractStyle_components:
  "\<exists>evs. trace (snd (extractStyle e tok w)) = trace w @ evs
     \<and> (components evs = [] \<or> components evs = [StyleExtractorC])"
  by (simp add: extractStyle_def getReferenceImageBase64_def analyzeImageStyle_def Let_def
      truthy_def split: reference.splits vision_reply.splits)


lemma program_reaches_loop:
  assumes "API_KEY e = Some k" "DOT \<in> set k"
    and "readIngredients (inputFile e) = Inr ls"
    and "generateToken k (dateNow1 e) (dateNow2 e) 3600 = Inr tok"
  shows "program e =
    (let w4 = \<lparr>trace = (if outputDirExists e then [] else [MkdirOutput]) @
                       [InputLoader, Console (Found (length ls)), CredentialSigner],
               files = outputFiles e\<rparr>;
         styled = extractStyle e tok w4;
         looped = processItems e tok (fst styled) (length ls) (enumerate 0 ls) (snd styled)
     in (if fst looped then Exited 0 else Stalled, snd looped))"
proof -
  from assms(1,2) have "\<not> apiKeyRejected (Some k)"
    by (auto simp: apiKeyRejected_def truthy_def)
  with assms show ?thesis
    by (simp add: program_def main_def Let_def emit_def split_beta split: prod.splits bool.splits)
qed

lemma program_trace:
  assumes "API_KEY e = Some k" "DOT \<in> set k"
    and "readIngredients (inputFile e) = Inr ls"
    and "generateToken k (dateNow1 e) (dateNow2 e) 3600 = Inr tok"
  shows "\<exists>w evs n. n \<le> length ls
    \<and> (components evs = [] \<or> components evs = [StyleExtractorC])
    \<and> ((\<forall>i<length ls. settles e i) \<longrightarrow> n = length ls)
    \<and> trace (snd (program e)) =
        (if outputDirExists e then [] else [MkdirOutput]) @
        [InputLoader, Console (Found (length ls)), CredentialSigner] @ evs @
        concat (map (itemEvents e tok (fst (extractStyle e tok w)) (length ls))
                  (enumerate 0 (take n ls)))"
proof -
  define w4 where "w4 = \<lparr>trace = (if outputDirExists e then [] else [MkdirOutput]) @
                       [InputLoader, Console (Found (length ls)), CredentialSigner],
               files = outputFiles e\<rparr>"
  define style where "style = fst (extractStyle e tok w4)"
  define w5 where "w5 = snd (extractStyle e tok w4)"
  have prog: "trace (snd (program e)) =
      trace (snd (processItems e tok style (length ls) (enumerate 0 ls) w5))"
    using program_reaches_loop [OF assms] by (simp add: Let_def w4_def style_def w5_def)
  from extractStyle_components [of e tok w4] obtain evs
    where evs: "trace w5 = trace w4 @ evs"
      "components evs = [] \<or> components evs = [StyleExtractorC]"
    by (auto simp: w5_def)
  have "\<exists>n \<le> length ls. ((\<forall>i<length ls. settles e i) \<longrightarrow> n = length ls)
      \<and> trace (snd (processItems e tok style (length ls) (enumerate 0 ls) w5)) =
          trace w5 @ concat (map (itemEvents e tok style (length ls)) (enumerate 0 (take n ls)))"
  proof (cases "\<forall>i<length ls. settles e i")
    case True
    then have "list_all (\<lambda>entry. settles e (fst entry)) (enumerate 0 ls)"
      by (simp add: list_all_enumerate)
    from processItems_all_settle [OF this, of tok style "length ls" w5] True
    show ?thesis by (intro exI [of _ "length ls"]) simp
  next
    case False
    with processItems_trace_enumerate [of ls e tok style "length ls" 0 w5]
    show ?thesis by blast
  qed
  then obtain n where n: "n \<le> length ls" "(\<forall>i<length ls. settles e i) \<longrightarrow> n = length ls"
    "trace (snd (processItems e tok style (length ls) (enumerate 0 ls) w5)) =
       trace w5 @ concat (map (itemEvents e tok style (length ls)) (enumerate 0 (take n ls)))"
    by blast
  have "n \<le> length ls
    \<and> (components evs = [] \<or> components evs = [StyleExtractorC])
    \<and> ((\<forall>i<length ls. settles e i) \<longrightarrow> n = length ls)
    \<and> trace (snd (program e)) =
        (if outputDirExists e then [] else [MkdirOutput]) @
        [InputLoader, Console (Found (length ls)), CredentialSigner] @ evs @
        concat (map (itemEvents e tok (fst (extractStyle e tok w4)) (length ls))
                  (enumerate 0 (take n ls)))"
    using n evs prog by (simp add: w4_def style_def)
  then show ?thesis by blast
qed

lemma program_status:
  assumes "API_KEY e = Some k" "DOT \<in> set k"
    and "readIngredients (inputFile e) = Inr ls"
    and "generateToken k (dateNow1 e) (dateNow2 e) 3600 = Inr tok"
  shows "fst (program e) = (if \<forall>i<length ls. settles e i then Exited 0 else Stalled)"
  using program_reaches_loop [OF assms]
  by (simp add: Let_def processItems_fst list_all_enumerate)


lemma program_generation_calls:
  assumes "API_KEY e = Some k" "DOT \<in> set k"
    and "readIngredients (inputFile e) = Inr ls"
    and "generateToken k (dateNow1 e) (dateNow2 e) 3600 = Inr tok"
    and "\<forall>i<length ls. settles e i" "i < length ls"
  shows "\<exists>w. GenerationClient i tok (buildPrompt (ingredientEn (parseLine (ls ! i))) (fst (extractStyle e tok w)))
            \<in> set (trace (snd (program e)))
    \<and> PromptBuilder i (buildPrompt (ingredientEn (parseLine (ls ! i))) (fst (extractStyle e tok w)))
            \<in> set (trace (snd (program e)))"
proof -
  from program_trace [OF assms(1-4)] assms(5) obtain w evs
    where tr: "trace (snd (program e)) =
        (if outputDirExists e then [] else [MkdirOutput]) @
        [InputLoader, Console (Found (length ls)), CredentialSigner] @ evs @
        concat (map (itemEvents e tok (fst (extractStyle e tok w)) (length ls)) (enumerate 0 ls))"
    by auto
  let ?style = "fst (extractStyle e tok w)"
  let ?p = "buildPrompt (ingredientEn (parseLine (ls ! i))) ?style"
  have "GenerationClient i tok ?p \<in> set (itemEvents e tok ?style (length ls) (0 + i, ls ! i))"
    "PromptBuilder i ?p \<in> set (itemEvents e tok ?style (length ls) (0 + i, ls ! i))"
    by (simp_all add: itemEvents_eq)
  with item_events_in_loop [OF assms(6), of _ e tok ?style "length ls" 0] tr
  have "GenerationClient i tok ?p \<in> set (trace (snd (program e)))
      \<and> PromptBuilder i ?p \<in> set (trace (snd (program e)))"
    by simp
  then show ?thesis by blast
qed


text \<open>The example environment, evaluated.\<close>

lemma exampleEnv_lines:
  "readIngredients (inputFile exampleEnv) = Inr [js ''Apple'', js ''Banana'', js ''Cherry'']"
  by (simp add: exampleEnv_def readIngredients_def js_def LF_def trim_def isWhiteSpace_def)


lemma exampleEnv_token_abc:
  "generateToken (js ''a.b.c'') (dateNow1 exampleEnv) (dateNow2 exampleEnv) 3600 =
     Inr (Token \<lparr>alg = js ''HS256'', sign_type = js ''SIGN''\<rparr>
            \<lparr>api_key = js ''a'', exp = 3605, timestamp = 5\<rparr> (js ''b''))"
  by (simp add: exampleEnv_def generateToken_def jwt_sign_def js_def DOT_def)


lemma three_part_not_two_part: "\<not> twoPartCredential (Some (js ''a.b.c''))"
  by code_simp


section \<open>The check of the credential (C5)\<close>

text \<open>
  Claim C5 as it stands: a credential that is missing or does not have the two-part
  structure ends the program before any network call and any other work. The credential
  \<^verbatim>\<open>a.b.c\<close> has three parts, passes the check, and the run makes its network calls and
  ends with exit code 0.
\<close>

theorem three_part_credential_runs:
  "\<not> twoPartCredential (API_KEY (exampleEnv\<lparr>API_KEY := Some (js ''a.b.c'')\<rparr>))
   \<and> fst (program (exampleEnv\<lparr>API_KEY := Some (js ''a.b.c'')\<rparr>)) = Exited 0
   \<and> list_ex isNetworkCall (trace (snd (program (exampleEnv\<lparr>API_KEY := Some (js ''a.b.c'')\<rparr>))))"
proof -
  let ?e = "exampleEnv\<lparr>API_KEY := Some (js ''a.b.c'')\<rparr>"
  have key: "API_KEY ?e = Some (js ''a.b.c'')" by simp
  have dot: "DOT \<in> set (js ''a.b.c'')" by (simp add: js_def DOT_def)
  have lines: "readIngredients (inputFile ?e) = Inr [js ''Apple'', js ''Banana'', js ''Cherry'']"
    using exampleEnv_lines by simp
  have tok: "generateToken (js ''a.b.c'') (dateNow1 ?e) (dateNow2 ?e) 3600 =
     Inr (Token \<lparr>alg = js ''HS256'', sign_type = js ''SIGN''\<rparr>
            \<lparr>api_key = js ''a'', exp = 3605, timestamp = 5\<rparr> (js ''b''))"
    using exampleEnv_token_abc by simp
  have settle: "\<forall>i<length [js ''Apple'', js ''Banana'', js ''Cherry'']. settles ?e i"
    by (simp add: settles_def exampleEnv_def)
  have 1: "fst (program ?e) = Exited 0"
    using program_status [OF key dot lines tok] settle by simp
  from program_generation_calls [OF key dot lines tok settle, of 0]
  obtain ev where "ev \<in> set (trace (snd (program ?e)))" "isNetworkCall ev"
    by fastforce
  then have 2: "list_ex isNetworkCall (trace (snd (program ?e)))"
    by (auto simp: list_ex_iff)
  from three_part_not_two_part 1 2 show ?thesis by simp
qed

text \<open>
  Claim C5, amended: a credential that is missing, empty or without a dot ends the
  program with exit code 1; the run consists of the diagnostic alone, makes no network
  call and leaves the files as they were.
\<close>

theorem rejected_credential_is_fatal:
  assumes "API_KEY e = None \<or> API_KEY e = Some [] \<or> (\<exists>k. API_KEY e = Some k \<and> DOT \<notin> set k)"
  shows "program e = (Exited 1, \<lparr>trace = [Console BadApiKey], files = outputFiles e\<rparr>)
    \<and> \<not> list_ex isNetworkCall (trace (snd (program e)))"
  using assms by (auto simp: program_def apiKeyRejected_def truthy_def)

theorem rejected_credential_is_fatal_witness:
  "program (exampleEnv\<lparr>API_KEY := None\<rparr>) =
     (Exited 1, \<lparr>trace = [Console BadApiKey], files = Map.empty\<rparr>)
   \<and> program (exampleEnv\<lparr>API_KEY := Some []\<rparr>) =
     (Exited 1, \<lparr>trace = [Console BadApiKey], files = Map.empty\<rparr>)
   \<and> program (exampleEnv\<lparr>API_KEY := Some (js ''idsecret'')\<rparr>) =
     (Exited 1, \<lparr>trace = [Console BadApiKey], files = Map.empty\<rparr>)"
  using rejected_credential_is_fatal [of "exampleEnv\<lparr>API_KEY := None\<rparr>"]
    rejected_credential_is_fatal [of "exampleEnv\<lparr>API_KEY := Some []\<rparr>"]
    rejected_credential_is_fatal [of "exampleEnv\<lparr>API_KEY := Some (js ''idsecret'')\<rparr>"]
  by (simp add: exampleEnv_def js_def DOT_def)

section \<open>Failures of the style extraction (C6)\<close>



section \<open>Failures of single items (C7)\<close>




section \<open>The order of a run (C9)\<close>




end
